theory Spec2Isabelle
  imports Main
begin

section \<open>The property rule engine of the SystemRDL compiler (systemrdl/core/properties.py)\<close>

subsection \<open>Component kinds, type tags and values\<close>

text \<open>
  The component classes of module \<open>component\<close> that a rule can bind to
  (\<open>comp.Addrmap\<close>, \<open>comp.Field\<close>, ...). \<open>type(comp_def)\<close> is one of them.
\<close>

datatype comp = comp_Addrmap | comp_Field | comp_Mem | comp_Reg | comp_Regfile | comp_Signal

text \<open>\<open>type(comp_def).__name__.lower()\<close>\<close>

fun comp_name :: "comp \<Rightarrow> string" where
  "comp_name comp_Addrmap = ''addrmap''"
| "comp_name comp_Field = ''field''"
| "comp_name comp_Mem = ''mem''"
| "comp_name comp_Reg = ''reg''"
| "comp_name comp_Regfile = ''regfile''"
| "comp_name comp_Signal = ''signal''"

text \<open>The built-in enumerations of module \<open>rdltypes\<close> named by the rules.\<close>

datatype rdl_enum = AccessType | OnReadType | OnWriteType | AddressingType | PrecedenceType

text \<open>
  The Python type objects that occur in \<open>valid_types\<close> and as results of
  \<open>predict_type()\<close>: \<open>bool\<close>, \<open>int\<close>, \<open>str\<close>, a component class, a built-in
  enumeration, \<open>rdltypes.UserEnum\<close>, \<open>tp.Array(t)\<close>, or any other class (by name).
\<close>

datatype vtype =
    T_bool
  | T_int
  | T_str
  | T_comp comp
  | T_enum rdl_enum
  | T_UserEnum
  | T_Array vtype
  | T_class string

text \<open>
  Modelled from the spec: module \<open>expressions\<close> is not part of the source at hand. An
  unresolved expression (an instance of a subclass of \<open>expressions.Expr\<close>) carries its
  own predicted kind, which \<open>predict_type()\<close> returns; the second component is the
  expression's source text, which the rule engine never inspects.
\<close>

datatype expr = Expr vtype string

fun predict_type :: "expr \<Rightarrow> vtype" where
  "predict_type (Expr t s) = t"

text \<open>
  What \<open>validate\<close> reads of a node that is itself a property value (\<open>value.get_path()\<close>,
  \<open>value.inst.width\<close>, \<open>value.inst.inst_name\<close>).
\<close>

record node_ref =
  ref_path :: string
  ref_width :: nat
  ref_inst_name :: string

text \<open>
  The Python objects that can reach the rule engine as a property value: \<open>None\<close>, a
  \<open>bool\<close>, an \<open>int\<close>, a \<open>str\<close>, a member of a built-in enumeration, a user-defined
  enumeration class (by name), an unresolved expression, or a node of the instance tree
  (\<open>NodeV comp_Field r\<close> is a \<open>FieldNode\<close>). \<open>bool\<close> and \<open>int\<close> are kept apart, as
  \<open>type(value) == int\<close> keeps them apart.
\<close>

datatype rdl_value =
    NoneV
  | BoolV bool
  | IntV int
  | StrV string
  | EnumV rdl_enum string
  | UserEnumV string
  | ExprV expr
  | NodeV comp node_ref

subsection \<open>Diagnostics and errors\<close>

type_synonym err_ctx = string

text \<open>
  The messages of the module, one constructor per format string, with the format's
  arguments:
  \<^item> \<open>NotValidFor p k\<close>: "The property 'p' is not valid for 'k' components";
  \<^item> \<open>IncompatibleAssignment p\<close>: "Incompatible assignment to property 'p'";
  \<^item> \<open>ErrextbusNotExternal i\<close>: "The 'errextbus' property is set to 'true', but instance
    'i' is not external";
  \<^item> \<open>NextSelfReference i\<close>: "Field 'i' cannot reference itself in next property";
  \<^item> \<open>ResetExceedsWidth v i w\<close>: "The reset value (v) of field 'i' exceeds it's width (w)";
  \<^item> \<open>ResetSizeMismatch i j w u\<close>: "Field 'i' references field 'j' as its reset value but
    they are not the same size (w != u)";
  \<^item> \<open>ResetSelfReference i\<close>: "Field 'i' cannot reference itself in reset property".
\<close>

datatype message =
    NotValidFor string string
  | IncompatibleAssignment string
  | ErrextbusNotExternal string
  | NextSelfReference string
  | ResetExceedsWidth int string nat
  | ResetSizeMismatch string string nat nat
  | ResetSelfReference string

text \<open>
  The exceptions that leave a method of the module: the one \<open>compiler.msg.fatal\<close>
  raises, and Python's own.
\<close>

datatype error =
    RDLCompileError message err_ctx
  | RuntimeError
  | AttributeError
  | LookupError

type_synonym 'a result = "error + 'a"

text \<open>The state of the diagnostic sink: the messages recorded so far.\<close>

type_synonym msg = "(message \<times> err_ctx) list"

text \<open>
  Modelled from the spec: the diagnostic sink \<open>compiler.msg\<close> is not part of the source
  at hand. By the spec's section 6, \<open>fatal(message, context)\<close> "aborts processing of the
  current construct": it raises, and the exception carries the message.
\<close>

definition fatal :: "message \<Rightarrow> err_ctx \<Rightarrow> error" where
  "fatal m ctx = RDLCompileError m ctx"

text \<open>
  Modelled from the spec: by the spec's section 6, \<open>error(message, context)\<close> of the
  diagnostic sink is "recorded, processing continues": it appends the message to the
  recorded ones and returns.
\<close>

definition msg_error :: "msg \<Rightarrow> message \<Rightarrow> err_ctx \<Rightarrow> msg" where
  "msg_error ms m ctx = ms @ [(m, ctx)]"

subsection \<open>Component definitions and instance nodes\<close>

text \<open>
  A component definition (\<open>comp_def\<close>, \<open>node.inst\<close>): its class, its mapping from
  property names to explicitly assigned values, and the attributes the rules read.
  \<open>width\<close> is a bit width, a natural number; \<open>external\<close> is \<open>None\<close> until the
  elaborator decides it.
\<close>

record component =
  comp_type :: comp
  properties :: "string \<rightharpoonup> rdl_value"
  name :: string
  inst_name :: string
  width :: nat
  external :: "bool option"
  inst_err_ctx :: err_ctx

text \<open>A node of the instance tree: \<open>node.inst\<close> and \<open>node.get_path()\<close>.\<close>

record node =
  inst :: component
  get_path :: string

subsection \<open>Property rules\<close>

text \<open>
  The rule classes differ in their class attributes and in which of the three methods
  they override. A rule is a record of the attributes together with, for each method,
  the implementation that the class's method resolution selects.
\<close>

datatype assign_impl =
    PropertyRule_assign
  | BoolPair_assign
  | Alias_assign string

datatype default_impl =
    PropertyRule_default
  | BoolPair_default
  | Inst_name_default
  | Inst_width_default
  | Regwidth_default

datatype validate_impl =
    PropertyRule_validate
  | Errextbus_validate
  | Next_validate
  | Reset_validate

record property_rule =
  get_name :: string
  bindable_to :: "comp list"
  valid_types :: "vtype list"
  default_v :: rdl_value
  dyn_assign_allowed :: bool
  mutex_group :: "string option"
  opposite_property :: string
  assign_impl :: assign_impl
  default_impl :: default_impl
  validate_impl :: validate_impl

subsection \<open>Assignment\<close>

text \<open>
  The unpacking of the true type of the value, in the order of the \<open>if\<close>/\<open>elif\<close> chain:
  a \<open>bool\<close>, a \<open>PrecedenceType\<close> literal, an expression, a user-defined enumeration;
  anything else raises \<open>RuntimeError\<close>.
\<close>

fun assign_type :: "rdl_value \<Rightarrow> vtype result" where
  "assign_type (BoolV b) = Inr T_bool"
| "assign_type (EnumV PrecedenceType m) = Inr (T_enum PrecedenceType)"
| "assign_type (ExprV e) = Inr (predict_type e)"
| "assign_type (UserEnumV n) = Inr T_UserEnum"
| "assign_type v = Inl RuntimeError"

text \<open>
  \<open>PropertyRule.assign_value\<close>. The castability relation \<open>expressions.is_castable\<close> is
  not part of the source at hand and is a parameter. The result is the outcome of the
  call together with the component definition after it; no write precedes a raise.
  The \<open>for\<close>/\<open>else\<close> loop reaches its \<open>else\<close> branch exactly when no entry of
  \<open>valid_types\<close> is castable to.
\<close>

definition PropertyRule_assign_value ::
  "(vtype \<Rightarrow> vtype \<Rightarrow> bool) \<Rightarrow> property_rule \<Rightarrow> component \<Rightarrow> rdl_value \<Rightarrow> err_ctx
    \<Rightarrow> unit result \<times> component" where
  "PropertyRule_assign_value is_castable p comp_def v ctx =
     (if \<not> List.member (bindable_to p) (comp_type comp_def) then
        (Inl (fatal (NotValidFor (get_name p) (comp_name (comp_type comp_def))) ctx), comp_def)
      else
        (case assign_type v of
           Inl e \<Rightarrow> (Inl e, comp_def)
         | Inr t \<Rightarrow>
             if \<not> list_ex (is_castable t) (valid_types p) then
               (Inl (fatal (IncompatibleAssignment (get_name p)) ctx), comp_def)
             else
               (Inr (), comp_def\<lparr>properties := (properties comp_def)(get_name p \<mapsto> v)\<rparr>)))"

text \<open>
  \<open>assign_value\<close> as dispatched on the rule's class: \<open>PropertyRuleBoolPair\<close> deletes
  the opposite's key after the base assignment; the four counter properties
  (\<open>threshold\<close>, \<open>saturate\<close>, \<open>incrthreshold\<close>, \<open>incrsaturate\<close>) write the value under
  a second, fixed key after the base assignment.
\<close>

definition assign_value ::
  "(vtype \<Rightarrow> vtype \<Rightarrow> bool) \<Rightarrow> property_rule \<Rightarrow> component \<Rightarrow> rdl_value \<Rightarrow> err_ctx
    \<Rightarrow> unit result \<times> component" where
  "assign_value is_castable p comp_def v ctx =
     (case PropertyRule_assign_value is_castable p comp_def v ctx of
        (Inl e, c) \<Rightarrow> (Inl e, c)
      | (Inr u, c) \<Rightarrow>
          (case assign_impl p of
             PropertyRule_assign \<Rightarrow> (Inr (), c)
           | BoolPair_assign \<Rightarrow>
               (if properties c (opposite_property p) \<noteq> None
                then (Inr (), c\<lparr>properties := (properties c)(opposite_property p := None)\<rparr>)
                else (Inr (), c))
           | Alias_assign k \<Rightarrow> (Inr (), c\<lparr>properties := (properties c)(k \<mapsto> v)\<rparr>)))"

subsection \<open>Default resolution\<close>

text \<open>
  Python's truth value of an object, which \<open>not\<close> negates: \<open>None\<close>, \<open>False\<close>, zero
  and the empty string are false; objects of the other classes (which define neither
  \<open>__bool__\<close> nor \<open>__len__\<close>) are true.
\<close>

fun truthy :: "rdl_value \<Rightarrow> bool" where
  "truthy NoneV = False"
| "truthy (BoolV b) = b"
| "truthy (IntV i) = (i \<noteq> 0)"
| "truthy (StrV s) = (s \<noteq> [])"
| "truthy v = True"

text \<open>
  \<open>PropertyRuleBook\<close>: the built-in rules by name, and the user-registered rules by
  name. \<open>lookup_property\<close> consults the built-in rules first.
\<close>

record PropertyRuleBook =
  rdl_properties :: "string \<rightharpoonup> property_rule"
  user_properties :: "string \<rightharpoonup> property_rule"

definition lookup_property :: "PropertyRuleBook \<Rightarrow> string \<Rightarrow> property_rule option" where
  "lookup_property book prop_name =
     (case rdl_properties book prop_name of
        Some r \<Rightarrow> Some r
      | None \<Rightarrow>
          (case user_properties book prop_name of
             Some r \<Rightarrow> Some r
           | None \<Rightarrow> None))"

text \<open>
  \<open>get_default\<close> as dispatched on the rule's class. \<open>Prop_accesswidth.get_default\<close>
  calls the node's method \<open>node.get_property\<close>, which is the first argument here. The
  result is \<open>None\<close> when the call does not return, and otherwise the outcome together
  with the node after the call.
\<close>

definition get_default ::
  "(node \<Rightarrow> string \<Rightarrow> (rdl_value result \<times> node) option) \<Rightarrow> property_rule \<Rightarrow> node
    \<Rightarrow> (rdl_value result \<times> node) option" where
  "get_default node_get_property p n =
     (case default_impl p of
        PropertyRule_default \<Rightarrow> Some (Inr (default_v p), n)
      | BoolPair_default \<Rightarrow>
          (case properties (inst n) (opposite_property p) of
             Some v \<Rightarrow> Some (Inr (BoolV (\<not> truthy v)), n)
           | None \<Rightarrow> Some (Inr (default_v p), n))
      | Inst_name_default \<Rightarrow> Some (Inr (StrV (name (inst n))), n)
      | Inst_width_default \<Rightarrow> Some (Inr (IntV (int (width (inst n)))), n)
      | Regwidth_default \<Rightarrow> node_get_property n ''regwidth'')"

text \<open>
  Modelled from the spec: \<open>node.get_property\<close> is not part of the source at hand. The
  spec's section 6 says that a node exposes \<open>get_property(name)\<close>, "which triggers this
  engine's default-resolution path when unset": the result is the explicitly assigned
  value when the name is in the property mapping, and otherwise \<open>get_default\<close> of the
  rule that \<open>lookup_property\<close> finds in the compiler's rule book. A name without a rule
  is a \<open>LookupError\<close>. \<open>get_property\<close> and \<open>get_default\<close> call each other, and a rule
  book can make the calls go on for ever, so the first argument bounds the number of
  nested calls of \<open>get_property\<close>; \<open>None\<close> is a computation cut off by the bound.
\<close>

primrec get_property ::
  "nat \<Rightarrow> PropertyRuleBook \<Rightarrow> node \<Rightarrow> string \<Rightarrow> (rdl_value result \<times> node) option" where
  "get_property 0 book n prop_name = None"
| "get_property (Suc fuel) book n prop_name =
     (case properties (inst n) prop_name of
        Some v \<Rightarrow> Some (Inr v, n)
      | None \<Rightarrow>
          (case lookup_property book prop_name of
             None \<Rightarrow> Some (Inl LookupError, n)
           | Some r \<Rightarrow> get_default (get_property fuel book) r n))"

text \<open>
  Default resolution called twice in a row, the second call on the node as the first
  call left it: both results, and the node after the second call.
\<close>

definition get_default_twice ::
  "(node \<Rightarrow> string \<Rightarrow> (rdl_value result \<times> node) option) \<Rightarrow> property_rule \<Rightarrow> node
    \<Rightarrow> (rdl_value result \<times> rdl_value result \<times> node) option" where
  "get_default_twice node_get_property p n =
     (case get_default node_get_property p n of
        None \<Rightarrow> None
      | Some (r1, n1) \<Rightarrow>
          (case get_default node_get_property p n1 of
             None \<Rightarrow> None
           | Some (r2, n2) \<Rightarrow> Some (r1, r2, n2)))"

subsection \<open>Validation\<close>

text \<open>\<open>value == True\<close>: Python's \<open>1 == True\<close> holds.\<close>

fun eq_True :: "rdl_value \<Rightarrow> bool" where
  "eq_True (BoolV b) = b"
| "eq_True (IntV i) = (i = 1)"
| "eq_True v = False"

text \<open>
  \<open>validate\<close> as dispatched on the rule's class; the base method does nothing. The
  result is the outcome together with the messages recorded so far. A value without
  \<open>get_path\<close> makes \<open>Prop_next.validate\<close> raise \<open>AttributeError\<close>.
\<close>

definition validate ::
  "property_rule \<Rightarrow> node \<Rightarrow> rdl_value \<Rightarrow> msg \<Rightarrow> unit result \<times> msg" where
  "validate p n v ms =
     (case validate_impl p of
        PropertyRule_validate \<Rightarrow> (Inr (), ms)
      | Errextbus_validate \<Rightarrow>
          (if external (inst n) = Some False \<and> eq_True v then
             (Inr (), msg_error ms (ErrextbusNotExternal (inst_name (inst n)))
                        (inst_err_ctx (inst n)))
           else (Inr (), ms))
      | Next_validate \<Rightarrow>
          (case v of
             NodeV k r \<Rightarrow>
               (if get_path n = ref_path r then
                  (Inr (), msg_error ms (NextSelfReference (inst_name (inst n)))
                             (inst_err_ctx (inst n)))
                else (Inr (), ms))
           | _ \<Rightarrow> (Inl AttributeError, ms))
      | Reset_validate \<Rightarrow>
          (case v of
             IntV i \<Rightarrow>
               (if i \<ge> 2 ^ width (inst n) then
                  (Inr (), msg_error ms
                             (ResetExceedsWidth i (inst_name (inst n)) (width (inst n)))
                             (inst_err_ctx (inst n)))
                else (Inr (), ms))
           | NodeV k r \<Rightarrow>
               (if k = comp_Field then
                  (let ms1 =
                         (if width (inst n) \<noteq> ref_width r then
                            msg_error ms
                              (ResetSizeMismatch (inst_name (inst n)) (ref_inst_name r)
                                 (width (inst n)) (ref_width r))
                              (inst_err_ctx (inst n))
                          else ms);
                       ms2 =
                         (if get_path n = ref_path r then
                            msg_error ms1 (ResetSelfReference (inst_name (inst n)))
                              (inst_err_ctx (inst n))
                          else ms1)
                   in (Inr (), ms2))
                else (Inl RuntimeError, ms))
           | _ \<Rightarrow> (Inl RuntimeError, ms)))"

subsection \<open>The catalogue of built-in rules\<close>

text \<open>
  One definition per \<open>Prop_\<close> class, in the order of the module. \<open>get_name\<close> is the
  class name without \<open>Prop_\<close>. A class that does not set \<open>mutex_group\<close> or
  \<open>dyn_assign_allowed\<close> inherits \<open>None\<close> and \<open>True\<close>; \<open>opposite_property\<close> is the
  empty string except in the subclasses of \<open>PropertyRuleBoolPair\<close>.
\<close>

definition Prop_name :: property_rule where
  "Prop_name =
     \<lparr>get_name = ''name'', bindable_to =
        [comp_Addrmap, comp_Field, comp_Mem, comp_Reg, comp_Regfile, comp_Signal],
      valid_types = [T_str], default_v = StrV '''',
      dyn_assign_allowed = True, mutex_group = None, opposite_property = '''',
      assign_impl = PropertyRule_assign, default_impl = Inst_name_default,
      validate_impl = PropertyRule_validate\<rparr>"

definition Prop_desc :: property_rule where
  "Prop_desc =
     \<lparr>get_name = ''desc'', bindable_to =
        [comp_Addrmap, comp_Field, comp_Mem, comp_Reg, comp_Regfile, comp_Signal],
      valid_types = [T_str], default_v = NoneV,
      dyn_assign_allowed = True, mutex_group = None, opposite_property = '''',
      assign_impl = PropertyRule_assign, default_impl = PropertyRule_default,
      validate_impl = PropertyRule_validate\<rparr>"

definition Prop_dontcompare :: property_rule where
  "Prop_dontcompare =
     \<lparr>get_name = ''dontcompare'', bindable_to = [comp_Addrmap, comp_Reg, comp_Regfile, comp_Field],
      valid_types = [T_bool, T_int], default_v = BoolV False,
      dyn_assign_allowed = True, mutex_group = Some ''O'', opposite_property = '''',
      assign_impl = PropertyRule_assign, default_impl = PropertyRule_default,
      validate_impl = PropertyRule_validate\<rparr>"

definition Prop_donttest :: property_rule where
  "Prop_donttest =
     \<lparr>get_name = ''donttest'', bindable_to = [comp_Addrmap, comp_Reg, comp_Regfile, comp_Field],
      valid_types = [T_bool, T_int], default_v = BoolV False,
      dyn_assign_allowed = True, mutex_group = Some ''O'', opposite_property = '''',
      assign_impl = PropertyRule_assign, default_impl = PropertyRule_default,
      validate_impl = PropertyRule_validate\<rparr>"

definition Prop_ispresent :: property_rule where
  "Prop_ispresent =
     \<lparr>get_name = ''ispresent'', bindable_to =
        [comp_Addrmap, comp_Field, comp_Mem, comp_Reg, comp_Regfile, comp_Signal],
      valid_types = [T_bool], default_v = BoolV True,
      dyn_assign_allowed = True, mutex_group = None, opposite_property = '''',
      assign_impl = PropertyRule_assign, default_impl = PropertyRule_default,
      validate_impl = PropertyRule_validate\<rparr>"

definition Prop_errextbus :: property_rule where
  "Prop_errextbus =
     \<lparr>get_name = ''errextbus'', bindable_to = [comp_Addrmap, comp_Reg, comp_Regfile],
      valid_types = [T_bool], default_v = BoolV False,
      dyn_assign_allowed = False, mutex_group = None, opposite_property = '''',
      assign_impl = PropertyRule_assign, default_impl = PropertyRule_default,
      validate_impl = Errextbus_validate\<rparr>"

definition Prop_hdl_path :: property_rule where
  "Prop_hdl_path =
     \<lparr>get_name = ''hdl_path'', bindable_to = [comp_Addrmap, comp_Reg, comp_Regfile],
      valid_types = [T_str], default_v = NoneV,
      dyn_assign_allowed = True, mutex_group = None, opposite_property = '''',
      assign_impl = PropertyRule_assign, default_impl = PropertyRule_default,
      validate_impl = PropertyRule_validate\<rparr>"

definition Prop_hdl_path_gate :: property_rule where
  "Prop_hdl_path_gate =
     \<lparr>get_name = ''hdl_path_gate'', bindable_to = [comp_Addrmap, comp_Reg, comp_Regfile],
      valid_types = [T_str], default_v = NoneV,
      dyn_assign_allowed = True, mutex_group = None, opposite_property = '''',
      assign_impl = PropertyRule_assign, default_impl = PropertyRule_default,
      validate_impl = PropertyRule_validate\<rparr>"

definition Prop_hdl_path_gate_slice :: property_rule where
  "Prop_hdl_path_gate_slice =
     \<lparr>get_name = ''hdl_path_gate_slice'', bindable_to = [comp_Addrmap, comp_Reg, comp_Regfile],
      valid_types = [T_Array T_str], default_v = NoneV,
      dyn_assign_allowed = True, mutex_group = None, opposite_property = '''',
      assign_impl = PropertyRule_assign, default_impl = PropertyRule_default,
      validate_impl = PropertyRule_validate\<rparr>"

definition Prop_hdl_path_slice :: property_rule where
  "Prop_hdl_path_slice =
     \<lparr>get_name = ''hdl_path_slice'', bindable_to = [comp_Addrmap, comp_Reg, comp_Regfile],
      valid_types = [T_Array T_str], default_v = NoneV,
      dyn_assign_allowed = True, mutex_group = None, opposite_property = '''',
      assign_impl = PropertyRule_assign, default_impl = PropertyRule_default,
      validate_impl = PropertyRule_validate\<rparr>"

definition Prop_signalwidth :: property_rule where
  "Prop_signalwidth =
     \<lparr>get_name = ''signalwidth'', bindable_to = [comp_Signal],
      valid_types = [T_int], default_v = NoneV,
      dyn_assign_allowed = False, mutex_group = None, opposite_property = '''',
      assign_impl = PropertyRule_assign, default_impl = Inst_width_default,
      validate_impl = PropertyRule_validate\<rparr>"

definition Prop_sync :: property_rule where
  "Prop_sync =
     \<lparr>get_name = ''sync'', bindable_to = [comp_Signal],
      valid_types = [T_bool], default_v = BoolV True,
      dyn_assign_allowed = True, mutex_group = Some ''N'', opposite_property = ''async'',
      assign_impl = BoolPair_assign, default_impl = BoolPair_default,
      validate_impl = PropertyRule_validate\<rparr>"

definition Prop_async :: property_rule where
  "Prop_async =
     \<lparr>get_name = ''async'', bindable_to = [comp_Signal],
      valid_types = [T_bool], default_v = BoolV False,
      dyn_assign_allowed = True, mutex_group = Some ''N'', opposite_property = ''sync'',
      assign_impl = BoolPair_assign, default_impl = BoolPair_default,
      validate_impl = PropertyRule_validate\<rparr>"

definition Prop_cpuif_reset :: property_rule where
  "Prop_cpuif_reset =
     \<lparr>get_name = ''cpuif_reset'', bindable_to = [comp_Signal],
      valid_types = [T_bool], default_v = BoolV False,
      dyn_assign_allowed = True, mutex_group = None, opposite_property = '''',
      assign_impl = PropertyRule_assign, default_impl = PropertyRule_default,
      validate_impl = PropertyRule_validate\<rparr>"

definition Prop_field_reset :: property_rule where
  "Prop_field_reset =
     \<lparr>get_name = ''field_reset'', bindable_to = [comp_Signal],
      valid_types = [T_bool], default_v = BoolV False,
      dyn_assign_allowed = True, mutex_group = None, opposite_property = '''',
      assign_impl = PropertyRule_assign, default_impl = PropertyRule_default,
      validate_impl = PropertyRule_validate\<rparr>"

definition Prop_activelow :: property_rule where
  "Prop_activelow =
     \<lparr>get_name = ''activelow'', bindable_to = [comp_Signal],
      valid_types = [T_bool], default_v = BoolV False,
      dyn_assign_allowed = True, mutex_group = Some ''A'', opposite_property = '''',
      assign_impl = PropertyRule_assign, default_impl = PropertyRule_default,
      validate_impl = PropertyRule_validate\<rparr>"

definition Prop_activehigh :: property_rule where
  "Prop_activehigh =
     \<lparr>get_name = ''activehigh'', bindable_to = [comp_Signal],
      valid_types = [T_bool], default_v = BoolV False,
      dyn_assign_allowed = True, mutex_group = Some ''A'', opposite_property = '''',
      assign_impl = PropertyRule_assign, default_impl = PropertyRule_default,
      validate_impl = PropertyRule_validate\<rparr>"

definition Prop_hw :: property_rule where
  "Prop_hw =
     \<lparr>get_name = ''hw'', bindable_to = [comp_Field],
      valid_types = [T_enum AccessType], default_v = EnumV AccessType ''rw'',
      dyn_assign_allowed = False, mutex_group = None, opposite_property = '''',
      assign_impl = PropertyRule_assign, default_impl = PropertyRule_default,
      validate_impl = PropertyRule_validate\<rparr>"

definition Prop_sw :: property_rule where
  "Prop_sw =
     \<lparr>get_name = ''sw'', bindable_to = [comp_Field, comp_Mem],
      valid_types = [T_enum AccessType], default_v = EnumV AccessType ''rw'',
      dyn_assign_allowed = True, mutex_group = None, opposite_property = '''',
      assign_impl = PropertyRule_assign, default_impl = PropertyRule_default,
      validate_impl = PropertyRule_validate\<rparr>"

definition Prop_next :: property_rule where
  "Prop_next =
     \<lparr>get_name = ''next'', bindable_to = [comp_Field],
      valid_types = [T_comp comp_Field], default_v = NoneV,
      dyn_assign_allowed = True, mutex_group = None, opposite_property = '''',
      assign_impl = PropertyRule_assign, default_impl = PropertyRule_default,
      validate_impl = Next_validate\<rparr>"

definition Prop_reset :: property_rule where
  "Prop_reset =
     \<lparr>get_name = ''reset'', bindable_to = [comp_Field],
      valid_types = [T_int, T_comp comp_Field], default_v = NoneV,
      dyn_assign_allowed = True, mutex_group = None, opposite_property = '''',
      assign_impl = PropertyRule_assign, default_impl = PropertyRule_default,
      validate_impl = Reset_validate\<rparr>"

definition Prop_resetsignal :: property_rule where
  "Prop_resetsignal =
     \<lparr>get_name = ''resetsignal'', bindable_to = [comp_Field],
      valid_types = [T_comp comp_Signal], default_v = NoneV,
      dyn_assign_allowed = True, mutex_group = None, opposite_property = '''',
      assign_impl = PropertyRule_assign, default_impl = PropertyRule_default,
      validate_impl = PropertyRule_validate\<rparr>"

definition Prop_rclr :: property_rule where
  "Prop_rclr =
     \<lparr>get_name = ''rclr'', bindable_to = [comp_Field],
      valid_types = [T_bool], default_v = BoolV False,
      dyn_assign_allowed = True, mutex_group = Some ''P'', opposite_property = '''',
      assign_impl = PropertyRule_assign, default_impl = PropertyRule_default,
      validate_impl = PropertyRule_validate\<rparr>"

definition Prop_rset :: property_rule where
  "Prop_rset =
     \<lparr>get_name = ''rset'', bindable_to = [comp_Field],
      valid_types = [T_bool], default_v = BoolV False,
      dyn_assign_allowed = True, mutex_group = Some ''P'', opposite_property = '''',
      assign_impl = PropertyRule_assign, default_impl = PropertyRule_default,
      validate_impl = PropertyRule_validate\<rparr>"

definition Prop_onread :: property_rule where
  "Prop_onread =
     \<lparr>get_name = ''onread'', bindable_to = [comp_Field],
      valid_types = [T_enum OnReadType], default_v = NoneV,
      dyn_assign_allowed = True, mutex_group = Some ''P'', opposite_property = '''',
      assign_impl = PropertyRule_assign, default_impl = PropertyRule_default,
      validate_impl = PropertyRule_validate\<rparr>"

definition Prop_woset :: property_rule where
  "Prop_woset =
     \<lparr>get_name = ''woset'', bindable_to = [comp_Field],
      valid_types = [T_bool], default_v = BoolV False,
      dyn_assign_allowed = True, mutex_group = Some ''B'', opposite_property = '''',
      assign_impl = PropertyRule_assign, default_impl = PropertyRule_default,
      validate_impl = PropertyRule_validate\<rparr>"

definition Prop_woclr :: property_rule where
  "Prop_woclr =
     \<lparr>get_name = ''woclr'', bindable_to = [comp_Field],
      valid_types = [T_bool], default_v = BoolV False,
      dyn_assign_allowed = True, mutex_group = Some ''B'', opposite_property = '''',
      assign_impl = PropertyRule_assign, default_impl = PropertyRule_default,
      validate_impl = PropertyRule_validate\<rparr>"

definition Prop_onwrite :: property_rule where
  "Prop_onwrite =
     \<lparr>get_name = ''onwrite'', bindable_to = [comp_Field],
      valid_types = [T_enum OnWriteType], default_v = NoneV,
      dyn_assign_allowed = True, mutex_group = Some ''B'', opposite_property = '''',
      assign_impl = PropertyRule_assign, default_impl = PropertyRule_default,
      validate_impl = PropertyRule_validate\<rparr>"

definition Prop_swwe :: property_rule where
  "Prop_swwe =
     \<lparr>get_name = ''swwe'', bindable_to = [comp_Field],
      valid_types = [T_bool], default_v = BoolV False,
      dyn_assign_allowed = True, mutex_group = Some ''R'', opposite_property = '''',
      assign_impl = PropertyRule_assign, default_impl = PropertyRule_default,
      validate_impl = PropertyRule_validate\<rparr>"

definition Prop_swwel :: property_rule where
  "Prop_swwel =
     \<lparr>get_name = ''swwel'', bindable_to = [comp_Field],
      valid_types = [T_bool], default_v = BoolV False,
      dyn_assign_allowed = True, mutex_group = Some ''R'', opposite_property = '''',
      assign_impl = PropertyRule_assign, default_impl = PropertyRule_default,
      validate_impl = PropertyRule_validate\<rparr>"

definition Prop_swmod :: property_rule where
  "Prop_swmod =
     \<lparr>get_name = ''swmod'', bindable_to = [comp_Field],
      valid_types = [T_bool], default_v = BoolV False,
      dyn_assign_allowed = True, mutex_group = None, opposite_property = '''',
      assign_impl = PropertyRule_assign, default_impl = PropertyRule_default,
      validate_impl = PropertyRule_validate\<rparr>"

definition Prop_swacc :: property_rule where
  "Prop_swacc =
     \<lparr>get_name = ''swacc'', bindable_to = [comp_Field],
      valid_types = [T_bool], default_v = BoolV False,
      dyn_assign_allowed = True, mutex_group = None, opposite_property = '''',
      assign_impl = PropertyRule_assign, default_impl = PropertyRule_default,
      validate_impl = PropertyRule_validate\<rparr>"

definition Prop_singlepulse :: property_rule where
  "Prop_singlepulse =
     \<lparr>get_name = ''singlepulse'', bindable_to = [comp_Field],
      valid_types = [T_bool], default_v = BoolV False,
      dyn_assign_allowed = True, mutex_group = None, opposite_property = '''',
      assign_impl = PropertyRule_assign, default_impl = PropertyRule_default,
      validate_impl = PropertyRule_validate\<rparr>"

definition Prop_we :: property_rule where
  "Prop_we =
     \<lparr>get_name = ''we'', bindable_to = [comp_Field],
      valid_types = [T_bool], default_v = BoolV False,
      dyn_assign_allowed = True, mutex_group = Some ''C'', opposite_property = '''',
      assign_impl = PropertyRule_assign, default_impl = PropertyRule_default,
      validate_impl = PropertyRule_validate\<rparr>"

definition Prop_wel :: property_rule where
  "Prop_wel =
     \<lparr>get_name = ''wel'', bindable_to = [comp_Field],
      valid_types = [T_bool], default_v = BoolV False,
      dyn_assign_allowed = True, mutex_group = Some ''C'', opposite_property = '''',
      assign_impl = PropertyRule_assign, default_impl = PropertyRule_default,
      validate_impl = PropertyRule_validate\<rparr>"

definition Prop_anded :: property_rule where
  "Prop_anded =
     \<lparr>get_name = ''anded'', bindable_to = [comp_Field],
      valid_types = [T_bool], default_v = BoolV False,
      dyn_assign_allowed = True, mutex_group = None, opposite_property = '''',
      assign_impl = PropertyRule_assign, default_impl = PropertyRule_default,
      validate_impl = PropertyRule_validate\<rparr>"

definition Prop_ored :: property_rule where
  "Prop_ored =
     \<lparr>get_name = ''ored'', bindable_to = [comp_Field],
      valid_types = [T_bool], default_v = BoolV False,
      dyn_assign_allowed = True, mutex_group = None, opposite_property = '''',
      assign_impl = PropertyRule_assign, default_impl = PropertyRule_default,
      validate_impl = PropertyRule_validate\<rparr>"

definition Prop_xored :: property_rule where
  "Prop_xored =
     \<lparr>get_name = ''xored'', bindable_to = [comp_Field],
      valid_types = [T_bool], default_v = BoolV False,
      dyn_assign_allowed = True, mutex_group = None, opposite_property = '''',
      assign_impl = PropertyRule_assign, default_impl = PropertyRule_default,
      validate_impl = PropertyRule_validate\<rparr>"

definition Prop_fieldwidth :: property_rule where
  "Prop_fieldwidth =
     \<lparr>get_name = ''fieldwidth'', bindable_to = [comp_Field],
      valid_types = [T_int], default_v = NoneV,
      dyn_assign_allowed = False, mutex_group = None, opposite_property = '''',
      assign_impl = PropertyRule_assign, default_impl = Inst_width_default,
      validate_impl = PropertyRule_validate\<rparr>"

definition Prop_hwclr :: property_rule where
  "Prop_hwclr =
     \<lparr>get_name = ''hwclr'', bindable_to = [comp_Field],
      valid_types = [T_bool], default_v = BoolV False,
      dyn_assign_allowed = True, mutex_group = None, opposite_property = '''',
      assign_impl = PropertyRule_assign, default_impl = PropertyRule_default,
      validate_impl = PropertyRule_validate\<rparr>"

definition Prop_hwset :: property_rule where
  "Prop_hwset =
     \<lparr>get_name = ''hwset'', bindable_to = [comp_Field],
      valid_types = [T_bool], default_v = BoolV False,
      dyn_assign_allowed = True, mutex_group = None, opposite_property = '''',
      assign_impl = PropertyRule_assign, default_impl = PropertyRule_default,
      validate_impl = PropertyRule_validate\<rparr>"

definition Prop_hwenable :: property_rule where
  "Prop_hwenable =
     \<lparr>get_name = ''hwenable'', bindable_to = [comp_Field],
      valid_types = [T_comp comp_Field], default_v = NoneV,
      dyn_assign_allowed = True, mutex_group = Some ''D'', opposite_property = '''',
      assign_impl = PropertyRule_assign, default_impl = PropertyRule_default,
      validate_impl = PropertyRule_validate\<rparr>"

definition Prop_hwmask :: property_rule where
  "Prop_hwmask =
     \<lparr>get_name = ''hwmask'', bindable_to = [comp_Field],
      valid_types = [T_comp comp_Field], default_v = NoneV,
      dyn_assign_allowed = True, mutex_group = Some ''D'', opposite_property = '''',
      assign_impl = PropertyRule_assign, default_impl = PropertyRule_default,
      validate_impl = PropertyRule_validate\<rparr>"

definition Prop_counter :: property_rule where
  "Prop_counter =
     \<lparr>get_name = ''counter'', bindable_to = [comp_Field],
      valid_types = [T_bool], default_v = BoolV False,
      dyn_assign_allowed = True, mutex_group = Some ''E'', opposite_property = '''',
      assign_impl = PropertyRule_assign, default_impl = PropertyRule_default,
      validate_impl = PropertyRule_validate\<rparr>"

definition Prop_threshold :: property_rule where
  "Prop_threshold =
     \<lparr>get_name = ''threshold'', bindable_to = [comp_Field],
      valid_types = [T_bool, T_int, T_comp comp_Signal], default_v = BoolV False,
      dyn_assign_allowed = True, mutex_group = Some ''incrthreshold alias'',
      opposite_property = '''',
      assign_impl = Alias_assign ''incrthreshold'', default_impl = PropertyRule_default,
      validate_impl = PropertyRule_validate\<rparr>"

definition Prop_saturate :: property_rule where
  "Prop_saturate =
     \<lparr>get_name = ''saturate'', bindable_to = [comp_Field],
      valid_types = [T_bool, T_int, T_comp comp_Signal], default_v = BoolV False,
      dyn_assign_allowed = True, mutex_group = Some ''incrsaturate alias'',
      opposite_property = '''',
      assign_impl = Alias_assign ''incrsaturate'', default_impl = PropertyRule_default,
      validate_impl = PropertyRule_validate\<rparr>"

definition Prop_incrthreshold :: property_rule where
  "Prop_incrthreshold =
     \<lparr>get_name = ''incrthreshold'', bindable_to = [comp_Field],
      valid_types = [T_bool, T_int, T_comp comp_Signal], default_v = BoolV False,
      dyn_assign_allowed = True, mutex_group = Some ''incrthreshold alias'',
      opposite_property = '''',
      assign_impl = Alias_assign ''incrthreshold'', default_impl = PropertyRule_default,
      validate_impl = PropertyRule_validate\<rparr>"

definition Prop_incrsaturate :: property_rule where
  "Prop_incrsaturate =
     \<lparr>get_name = ''incrsaturate'', bindable_to = [comp_Field],
      valid_types = [T_bool, T_int, T_comp comp_Signal], default_v = BoolV False,
      dyn_assign_allowed = True, mutex_group = Some ''incrsaturate alias'',
      opposite_property = '''',
      assign_impl = Alias_assign ''incrsaturate'', default_impl = PropertyRule_default,
      validate_impl = PropertyRule_validate\<rparr>"

definition Prop_overflow :: property_rule where
  "Prop_overflow =
     \<lparr>get_name = ''overflow'', bindable_to = [comp_Field],
      valid_types = [T_bool], default_v = BoolV False,
      dyn_assign_allowed = True, mutex_group = None, opposite_property = '''',
      assign_impl = PropertyRule_assign, default_impl = PropertyRule_default,
      validate_impl = PropertyRule_validate\<rparr>"

definition Prop_underflow :: property_rule where
  "Prop_underflow =
     \<lparr>get_name = ''underflow'', bindable_to = [comp_Field],
      valid_types = [T_bool], default_v = BoolV False,
      dyn_assign_allowed = True, mutex_group = None, opposite_property = '''',
      assign_impl = PropertyRule_assign, default_impl = PropertyRule_default,
      validate_impl = PropertyRule_validate\<rparr>"

definition Prop_incr :: property_rule where
  "Prop_incr =
     \<lparr>get_name = ''incr'', bindable_to = [comp_Field],
      valid_types = [T_comp comp_Signal], default_v = NoneV,
      dyn_assign_allowed = True, mutex_group = None, opposite_property = '''',
      assign_impl = PropertyRule_assign, default_impl = PropertyRule_default,
      validate_impl = PropertyRule_validate\<rparr>"

definition Prop_incrvalue :: property_rule where
  "Prop_incrvalue =
     \<lparr>get_name = ''incrvalue'', bindable_to = [comp_Field],
      valid_types = [T_int, T_comp comp_Signal], default_v = NoneV,
      dyn_assign_allowed = True, mutex_group = Some ''F'', opposite_property = '''',
      assign_impl = PropertyRule_assign, default_impl = PropertyRule_default,
      validate_impl = PropertyRule_validate\<rparr>"

definition Prop_incrwidth :: property_rule where
  "Prop_incrwidth =
     \<lparr>get_name = ''incrwidth'', bindable_to = [comp_Field],
      valid_types = [T_int], default_v = NoneV,
      dyn_assign_allowed = True, mutex_group = Some ''F'', opposite_property = '''',
      assign_impl = PropertyRule_assign, default_impl = PropertyRule_default,
      validate_impl = PropertyRule_validate\<rparr>"

definition Prop_decrvalue :: property_rule where
  "Prop_decrvalue =
     \<lparr>get_name = ''decrvalue'', bindable_to = [comp_Field],
      valid_types = [T_int, T_comp comp_Signal], default_v = NoneV,
      dyn_assign_allowed = True, mutex_group = Some ''G'', opposite_property = '''',
      assign_impl = PropertyRule_assign, default_impl = PropertyRule_default,
      validate_impl = PropertyRule_validate\<rparr>"

definition Prop_decr :: property_rule where
  "Prop_decr =
     \<lparr>get_name = ''decr'', bindable_to = [comp_Field],
      valid_types = [T_comp comp_Signal], default_v = NoneV,
      dyn_assign_allowed = True, mutex_group = None, opposite_property = '''',
      assign_impl = PropertyRule_assign, default_impl = PropertyRule_default,
      validate_impl = PropertyRule_validate\<rparr>"

definition Prop_decrwidth :: property_rule where
  "Prop_decrwidth =
     \<lparr>get_name = ''decrwidth'', bindable_to = [comp_Field],
      valid_types = [T_int], default_v = NoneV,
      dyn_assign_allowed = True, mutex_group = Some ''G'', opposite_property = '''',
      assign_impl = PropertyRule_assign, default_impl = PropertyRule_default,
      validate_impl = PropertyRule_validate\<rparr>"

definition Prop_decrsaturate :: property_rule where
  "Prop_decrsaturate =
     \<lparr>get_name = ''decrsaturate'', bindable_to = [comp_Field],
      valid_types = [T_bool, T_int, T_comp comp_Signal], default_v = BoolV False,
      dyn_assign_allowed = True, mutex_group = None, opposite_property = '''',
      assign_impl = PropertyRule_assign, default_impl = PropertyRule_default,
      validate_impl = PropertyRule_validate\<rparr>"

definition Prop_decrthreshold :: property_rule where
  "Prop_decrthreshold =
     \<lparr>get_name = ''decrthreshold'', bindable_to = [comp_Field],
      valid_types = [T_bool, T_int, T_comp comp_Signal], default_v = BoolV False,
      dyn_assign_allowed = True, mutex_group = None, opposite_property = '''',
      assign_impl = PropertyRule_assign, default_impl = PropertyRule_default,
      validate_impl = PropertyRule_validate\<rparr>"

definition Prop_intr :: property_rule where
  "Prop_intr =
     \<lparr>get_name = ''intr'', bindable_to = [comp_Field],
      valid_types = [T_bool], default_v = BoolV False,
      dyn_assign_allowed = True, mutex_group = Some ''E'', opposite_property = '''',
      assign_impl = PropertyRule_assign, default_impl = PropertyRule_default,
      validate_impl = PropertyRule_validate\<rparr>"

definition Prop_enable :: property_rule where
  "Prop_enable =
     \<lparr>get_name = ''enable'', bindable_to = [comp_Field],
      valid_types = [T_comp comp_Field], default_v = NoneV,
      dyn_assign_allowed = True, mutex_group = Some ''J'', opposite_property = '''',
      assign_impl = PropertyRule_assign, default_impl = PropertyRule_default,
      validate_impl = PropertyRule_validate\<rparr>"

definition Prop_mask :: property_rule where
  "Prop_mask =
     \<lparr>get_name = ''mask'', bindable_to = [comp_Field],
      valid_types = [T_comp comp_Field], default_v = NoneV,
      dyn_assign_allowed = True, mutex_group = Some ''J'', opposite_property = '''',
      assign_impl = PropertyRule_assign, default_impl = PropertyRule_default,
      validate_impl = PropertyRule_validate\<rparr>"

definition Prop_haltenable :: property_rule where
  "Prop_haltenable =
     \<lparr>get_name = ''haltenable'', bindable_to = [comp_Field],
      valid_types = [T_comp comp_Field], default_v = NoneV,
      dyn_assign_allowed = True, mutex_group = Some ''K'', opposite_property = '''',
      assign_impl = PropertyRule_assign, default_impl = PropertyRule_default,
      validate_impl = PropertyRule_validate\<rparr>"

definition Prop_haltmask :: property_rule where
  "Prop_haltmask =
     \<lparr>get_name = ''haltmask'', bindable_to = [comp_Field],
      valid_types = [T_comp comp_Field], default_v = NoneV,
      dyn_assign_allowed = True, mutex_group = Some ''K'', opposite_property = '''',
      assign_impl = PropertyRule_assign, default_impl = PropertyRule_default,
      validate_impl = PropertyRule_validate\<rparr>"

definition Prop_sticky :: property_rule where
  "Prop_sticky =
     \<lparr>get_name = ''sticky'', bindable_to = [comp_Field],
      valid_types = [T_bool], default_v = BoolV False,
      dyn_assign_allowed = True, mutex_group = Some ''I'', opposite_property = '''',
      assign_impl = PropertyRule_assign, default_impl = PropertyRule_default,
      validate_impl = PropertyRule_validate\<rparr>"

definition Prop_stickybit :: property_rule where
  "Prop_stickybit =
     \<lparr>get_name = ''stickybit'', bindable_to = [comp_Field],
      valid_types = [T_bool], default_v = BoolV False,
      dyn_assign_allowed = True, mutex_group = Some ''I'', opposite_property = '''',
      assign_impl = PropertyRule_assign, default_impl = PropertyRule_default,
      validate_impl = PropertyRule_validate\<rparr>"

definition Prop_encode :: property_rule where
  "Prop_encode =
     \<lparr>get_name = ''encode'', bindable_to = [comp_Field],
      valid_types = [T_UserEnum], default_v = NoneV,
      dyn_assign_allowed = True, mutex_group = None, opposite_property = '''',
      assign_impl = PropertyRule_assign, default_impl = PropertyRule_default,
      validate_impl = PropertyRule_validate\<rparr>"

definition Prop_precedence :: property_rule where
  "Prop_precedence =
     \<lparr>get_name = ''precedence'', bindable_to = [comp_Field],
      valid_types = [T_enum PrecedenceType], default_v = EnumV PrecedenceType ''sw'',
      dyn_assign_allowed = True, mutex_group = None, opposite_property = '''',
      assign_impl = PropertyRule_assign, default_impl = PropertyRule_default,
      validate_impl = PropertyRule_validate\<rparr>"

definition Prop_paritycheck :: property_rule where
  "Prop_paritycheck =
     \<lparr>get_name = ''paritycheck'', bindable_to = [comp_Field],
      valid_types = [T_bool], default_v = BoolV False,
      dyn_assign_allowed = False, mutex_group = None, opposite_property = '''',
      assign_impl = PropertyRule_assign, default_impl = PropertyRule_default,
      validate_impl = PropertyRule_validate\<rparr>"

definition Prop_regwidth :: property_rule where
  "Prop_regwidth =
     \<lparr>get_name = ''regwidth'', bindable_to = [comp_Reg],
      valid_types = [T_int], default_v = IntV 32,
      dyn_assign_allowed = False, mutex_group = None, opposite_property = '''',
      assign_impl = PropertyRule_assign, default_impl = PropertyRule_default,
      validate_impl = PropertyRule_validate\<rparr>"

definition Prop_accesswidth :: property_rule where
  "Prop_accesswidth =
     \<lparr>get_name = ''accesswidth'', bindable_to = [comp_Reg],
      valid_types = [T_int], default_v = NoneV,
      dyn_assign_allowed = True, mutex_group = None, opposite_property = '''',
      assign_impl = PropertyRule_assign, default_impl = Regwidth_default,
      validate_impl = PropertyRule_validate\<rparr>"

definition Prop_shared :: property_rule where
  "Prop_shared =
     \<lparr>get_name = ''shared'', bindable_to = [comp_Reg],
      valid_types = [T_bool], default_v = BoolV False,
      dyn_assign_allowed = False, mutex_group = None, opposite_property = '''',
      assign_impl = PropertyRule_assign, default_impl = PropertyRule_default,
      validate_impl = PropertyRule_validate\<rparr>"

definition Prop_mementries :: property_rule where
  "Prop_mementries =
     \<lparr>get_name = ''mementries'', bindable_to = [comp_Mem],
      valid_types = [T_int], default_v = IntV 1,
      dyn_assign_allowed = False, mutex_group = None, opposite_property = '''',
      assign_impl = PropertyRule_assign, default_impl = PropertyRule_default,
      validate_impl = PropertyRule_validate\<rparr>"

definition Prop_memwidth :: property_rule where
  "Prop_memwidth =
     \<lparr>get_name = ''memwidth'', bindable_to = [comp_Mem],
      valid_types = [T_int], default_v = IntV 32,
      dyn_assign_allowed = False, mutex_group = None, opposite_property = '''',
      assign_impl = PropertyRule_assign, default_impl = PropertyRule_default,
      validate_impl = PropertyRule_validate\<rparr>"

definition Prop_alignment :: property_rule where
  "Prop_alignment =
     \<lparr>get_name = ''alignment'', bindable_to = [comp_Addrmap, comp_Regfile],
      valid_types = [T_int], default_v = NoneV,
      dyn_assign_allowed = False, mutex_group = None, opposite_property = '''',
      assign_impl = PropertyRule_assign, default_impl = PropertyRule_default,
      validate_impl = PropertyRule_validate\<rparr>"

definition Prop_sharedextbus :: property_rule where
  "Prop_sharedextbus =
     \<lparr>get_name = ''sharedextbus'', bindable_to = [comp_Addrmap, comp_Regfile],
      valid_types = [T_bool], default_v = BoolV False,
      dyn_assign_allowed = False, mutex_group = None, opposite_property = '''',
      assign_impl = PropertyRule_assign, default_impl = PropertyRule_default,
      validate_impl = PropertyRule_validate\<rparr>"

definition Prop_bigendian :: property_rule where
  "Prop_bigendian =
     \<lparr>get_name = ''bigendian'', bindable_to = [comp_Addrmap],
      valid_types = [T_bool], default_v = BoolV False,
      dyn_assign_allowed = True, mutex_group = Some ''L'', opposite_property = '''',
      assign_impl = PropertyRule_assign, default_impl = PropertyRule_default,
      validate_impl = PropertyRule_validate\<rparr>"

definition Prop_littleendian :: property_rule where
  "Prop_littleendian =
     \<lparr>get_name = ''littleendian'', bindable_to = [comp_Addrmap],
      valid_types = [T_bool], default_v = BoolV False,
      dyn_assign_allowed = True, mutex_group = Some ''L'', opposite_property = '''',
      assign_impl = PropertyRule_assign, default_impl = PropertyRule_default,
      validate_impl = PropertyRule_validate\<rparr>"

definition Prop_addressing :: property_rule where
  "Prop_addressing =
     \<lparr>get_name = ''addressing'', bindable_to = [comp_Addrmap],
      valid_types = [T_enum AddressingType], default_v = EnumV AddressingType ''regalign'',
      dyn_assign_allowed = False, mutex_group = None, opposite_property = '''',
      assign_impl = PropertyRule_assign, default_impl = PropertyRule_default,
      validate_impl = PropertyRule_validate\<rparr>"

definition Prop_rsvdset :: property_rule where
  "Prop_rsvdset =
     \<lparr>get_name = ''rsvdset'', bindable_to = [comp_Addrmap],
      valid_types = [T_bool], default_v = BoolV False,
      dyn_assign_allowed = False, mutex_group = Some ''Q'', opposite_property = '''',
      assign_impl = PropertyRule_assign, default_impl = PropertyRule_default,
      validate_impl = PropertyRule_validate\<rparr>"

definition Prop_rsvdsetX :: property_rule where
  "Prop_rsvdsetX =
     \<lparr>get_name = ''rsvdsetX'', bindable_to = [comp_Addrmap],
      valid_types = [T_bool], default_v = BoolV False,
      dyn_assign_allowed = False, mutex_group = Some ''Q'', opposite_property = '''',
      assign_impl = PropertyRule_assign, default_impl = PropertyRule_default,
      validate_impl = PropertyRule_validate\<rparr>"

definition Prop_msb0 :: property_rule where
  "Prop_msb0 =
     \<lparr>get_name = ''msb0'', bindable_to = [comp_Addrmap],
      valid_types = [T_bool], default_v = BoolV False,
      dyn_assign_allowed = False, mutex_group = Some ''M'', opposite_property = ''lsb0'',
      assign_impl = BoolPair_assign, default_impl = BoolPair_default,
      validate_impl = PropertyRule_validate\<rparr>"

definition Prop_lsb0 :: property_rule where
  "Prop_lsb0 =
     \<lparr>get_name = ''lsb0'', bindable_to = [comp_Addrmap],
      valid_types = [T_bool], default_v = BoolV True,
      dyn_assign_allowed = False, mutex_group = Some ''M'', opposite_property = ''msb0'',
      assign_impl = BoolPair_assign, default_impl = BoolPair_default,
      validate_impl = PropertyRule_validate\<rparr>"

definition Prop_bridge :: property_rule where
  "Prop_bridge =
     \<lparr>get_name = ''bridge'', bindable_to = [comp_Addrmap],
      valid_types = [T_bool], default_v = BoolV False,
      dyn_assign_allowed = False, mutex_group = None, opposite_property = '''',
      assign_impl = PropertyRule_assign, default_impl = PropertyRule_default,
      validate_impl = PropertyRule_validate\<rparr>"

text \<open>
  \<open>PropertyRuleBook.__init__\<close>: every subclass of \<open>PropertyRule\<close> whose class name
  starts with \<open>Prop_\<close> is instantiated once and stored under its name; there are no
  user-registered rules at the start.
\<close>

definition Prop_classes :: "property_rule list" where
  "Prop_classes =
     [Prop_name, Prop_desc, Prop_dontcompare, Prop_donttest, Prop_ispresent,
      Prop_errextbus, Prop_hdl_path, Prop_hdl_path_gate, Prop_hdl_path_gate_slice,
      Prop_hdl_path_slice, Prop_signalwidth, Prop_sync, Prop_async, Prop_cpuif_reset,
      Prop_field_reset, Prop_activelow, Prop_activehigh, Prop_hw, Prop_sw, Prop_next,
      Prop_reset, Prop_resetsignal, Prop_rclr, Prop_rset, Prop_onread, Prop_woset,
      Prop_woclr, Prop_onwrite, Prop_swwe, Prop_swwel, Prop_swmod, Prop_swacc,
      Prop_singlepulse, Prop_we, Prop_wel, Prop_anded, Prop_ored, Prop_xored,
      Prop_fieldwidth, Prop_hwclr, Prop_hwset, Prop_hwenable, Prop_hwmask, Prop_counter,
      Prop_threshold, Prop_saturate, Prop_incrthreshold, Prop_incrsaturate, Prop_overflow,
      Prop_underflow, Prop_incr, Prop_incrvalue, Prop_incrwidth, Prop_decrvalue,
      Prop_decr, Prop_decrwidth, Prop_decrsaturate, Prop_decrthreshold, Prop_intr,
      Prop_enable, Prop_mask, Prop_haltenable, Prop_haltmask, Prop_sticky, Prop_stickybit,
      Prop_encode, Prop_precedence, Prop_paritycheck, Prop_regwidth, Prop_accesswidth,
      Prop_shared, Prop_mementries, Prop_memwidth, Prop_alignment, Prop_sharedextbus,
      Prop_bigendian, Prop_littleendian, Prop_addressing, Prop_rsvdset, Prop_rsvdsetX,
      Prop_msb0, Prop_lsb0, Prop_bridge]"

definition PropertyRuleBook_init :: PropertyRuleBook where
  "PropertyRuleBook_init =
     \<lparr>rdl_properties = fold (\<lambda>prop m. m(get_name prop \<mapsto> prop)) Prop_classes Map.empty,
      user_properties = Map.empty\<rparr>"

text \<open>
  The least castability relation, under which a kind is castable to itself only. It
  instantiates the parameter \<open>is_castable\<close> where a rule is evaluated at a concrete
  input; the theorems below hold for every relation.
\<close>

definition is_castable_exact :: "vtype \<Rightarrow> vtype \<Rightarrow> bool" where
  "is_castable_exact src dst = (src = dst)"

subsection \<open>Concrete inputs\<close>

text \<open>A signal definition on which \<open>async\<close> has been assigned explicitly.\<close>

definition async_signal :: component where
  "async_signal =
     \<lparr>comp_type = comp_Signal, properties = [''async'' \<mapsto> BoolV True], name = ''irq'',
      inst_name = ''irq'', width = 1, external = None, inst_err_ctx = ''top.rdl:3''\<rparr>"

text \<open>An address map definition without explicit properties, and its node.\<close>

definition top_addrmap :: component where
  "top_addrmap =
     \<lparr>comp_type = comp_Addrmap, properties = Map.empty, name = ''top'', inst_name = ''top'',
      width = 0, external = None, inst_err_ctx = ''top.rdl:1''\<rparr>"

definition top_node :: node where
  "top_node = \<lparr>inst = top_addrmap, get_path = ''top''\<rparr>"

text \<open>A field definition of width 4 without explicit properties, and its node.\<close>

definition field4 :: component where
  "field4 =
     \<lparr>comp_type = comp_Field, properties = Map.empty, name = ''F'', inst_name = ''F'',
      width = 4, external = None, inst_err_ctx = ''top.rdl:7''\<rparr>"

definition field4_node :: node where
  "field4_node = \<lparr>inst = field4, get_path = ''top.R.F''\<rparr>"

text \<open>
  A register definition of declared width 16 without explicit properties, its node, and
  the same register with \<open>regwidth\<close> assigned 8 explicitly.
\<close>

definition reg16 :: component where
  "reg16 =
     \<lparr>comp_type = comp_Reg, properties = Map.empty, name = ''R'', inst_name = ''R'',
      width = 16, external = Some False, inst_err_ctx = ''top.rdl:5''\<rparr>"

definition reg16_node :: node where
  "reg16_node = \<lparr>inst = reg16, get_path = ''top.R''\<rparr>"

definition reg16_explicit_node :: node where
  "reg16_explicit_node =
     \<lparr>inst = reg16\<lparr>properties := [''regwidth'' \<mapsto> IntV 8]\<rparr>, get_path = ''top.R''\<rparr>"

section \<open>Theorems\<close>

subsection \<open>The rule book\<close>

text \<open>The definitions of the catalogue's rules, for evaluating the rule book.\<close>

lemmas Prop_defs =
  Prop_name_def Prop_desc_def Prop_dontcompare_def Prop_donttest_def Prop_ispresent_def
  Prop_errextbus_def Prop_hdl_path_def Prop_hdl_path_gate_def Prop_hdl_path_gate_slice_def
  Prop_hdl_path_slice_def Prop_signalwidth_def Prop_sync_def Prop_async_def
  Prop_cpuif_reset_def Prop_field_reset_def Prop_activelow_def Prop_activehigh_def Prop_hw_def
  Prop_sw_def Prop_next_def Prop_reset_def Prop_resetsignal_def Prop_rclr_def Prop_rset_def
  Prop_onread_def Prop_woset_def Prop_woclr_def Prop_onwrite_def Prop_swwe_def Prop_swwel_def
  Prop_swmod_def Prop_swacc_def Prop_singlepulse_def Prop_we_def Prop_wel_def Prop_anded_def
  Prop_ored_def Prop_xored_def Prop_fieldwidth_def Prop_hwclr_def Prop_hwset_def
  Prop_hwenable_def Prop_hwmask_def Prop_counter_def Prop_threshold_def Prop_saturate_def
  Prop_incrthreshold_def Prop_incrsaturate_def Prop_overflow_def Prop_underflow_def
  Prop_incr_def Prop_incrvalue_def Prop_incrwidth_def Prop_decrvalue_def Prop_decr_def
  Prop_decrwidth_def Prop_decrsaturate_def Prop_decrthreshold_def Prop_intr_def
  Prop_enable_def Prop_mask_def Prop_haltenable_def Prop_haltmask_def Prop_sticky_def
  Prop_stickybit_def Prop_encode_def Prop_precedence_def Prop_paritycheck_def
  Prop_regwidth_def Prop_accesswidth_def Prop_shared_def Prop_mementries_def Prop_memwidth_def
  Prop_alignment_def Prop_sharedextbus_def Prop_bigendian_def Prop_littleendian_def
  Prop_addressing_def Prop_rsvdset_def Prop_rsvdsetX_def Prop_msb0_def Prop_lsb0_def
  Prop_bridge_def

lemma get_name_regwidth: "get_name Prop_regwidth = ''regwidth''"
  by (simp add: Prop_regwidth_def)

lemma rdl_regwidth:
  "rdl_properties PropertyRuleBook_init ''regwidth'' = Some Prop_regwidth"
  unfolding PropertyRuleBook_init_def Prop_classes_def
  by (simp add: Prop_defs)

text \<open>
  In every rule of the catalogue the paired opposite is another name than the rule's
  own (the empty string where the rule has no opposite).
\<close>

lemma catalogue_opposite_differs:
  "list_all (\<lambda>p. opposite_property p \<noteq> get_name p) Prop_classes"
  unfolding Prop_classes_def
  by (simp add: Prop_defs)

lemma lookup_regwidth:
  "lookup_property PropertyRuleBook_init ''regwidth'' = Some Prop_regwidth"
  by (simp add: lookup_property_def rdl_regwidth)

subsection \<open>Assignment: the outcomes of the base method and of the dispatch\<close>

lemma PropertyRule_assign_value_unbound:
  "\<not> List.member (bindable_to p) (comp_type c) \<Longrightarrow>
   PropertyRule_assign_value is_castable p c v ctx =
     (Inl (RDLCompileError (NotValidFor (get_name p) (comp_name (comp_type c))) ctx), c)"
  by (simp add: PropertyRule_assign_value_def fatal_def)

lemma PropertyRule_assign_value_incompatible:
  "List.member (bindable_to p) (comp_type c) \<Longrightarrow> assign_type v = Inr t \<Longrightarrow>
   \<not> list_ex (is_castable t) (valid_types p) \<Longrightarrow>
   PropertyRule_assign_value is_castable p c v ctx =
     (Inl (RDLCompileError (IncompatibleAssignment (get_name p)) ctx), c)"
  by (simp add: PropertyRule_assign_value_def fatal_def)

lemma PropertyRule_assign_value_stores:
  "List.member (bindable_to p) (comp_type c) \<Longrightarrow> assign_type v = Inr t \<Longrightarrow>
   list_ex (is_castable t) (valid_types p) \<Longrightarrow>
   PropertyRule_assign_value is_castable p c v ctx =
     (Inr (), c\<lparr>properties := (properties c)(get_name p \<mapsto> v)\<rparr>)"
  by (simp add: PropertyRule_assign_value_def)

lemma PropertyRule_assign_value_Inr:
  "PropertyRule_assign_value is_castable p c v ctx = (Inr u, c') \<Longrightarrow>
   c' = c\<lparr>properties := (properties c)(get_name p \<mapsto> v)\<rparr>"
  by (auto simp: PropertyRule_assign_value_def split: if_splits sum.splits)

lemma assign_value_error:
  "PropertyRule_assign_value is_castable p c v ctx = (Inl e, c') \<Longrightarrow>
   assign_value is_castable p c v ctx = (Inl e, c')"
  by (simp add: assign_value_def)

lemma assign_value_stores:
  assumes "PropertyRule_assign_value is_castable p c v ctx = (Inr u, c')"
      and "opposite_property p \<noteq> get_name p"
  shows "fst (assign_value is_castable p c v ctx) = Inr () \<and>
         properties (snd (assign_value is_castable p c v ctx)) (get_name p) = Some v"
proof -
  have c': "c' = c\<lparr>properties := (properties c)(get_name p \<mapsto> v)\<rparr>"
    using assms(1) by (rule PropertyRule_assign_value_Inr)
  show ?thesis
    using assms by (cases "assign_impl p") (simp_all add: assign_value_def c')
qed

lemma BoolPair_assign_value:
  assumes "assign_impl p = BoolPair_assign"
      and "opposite_property p \<noteq> get_name p"
      and "assign_value is_castable p c v ctx = (Inr (), c')"
  shows "properties c' (get_name p) = Some v \<and> properties c' (opposite_property p) = None"
proof (cases "PropertyRule_assign_value is_castable p c v ctx")
  case (Pair r c1)
  show ?thesis
  proof (cases r)
    case (Inl e)
    with Pair assms(3) show ?thesis by (simp add: assign_value_def)
  next
    case (Inr u)
    with Pair have c1: "c1 = c\<lparr>properties := (properties c)(get_name p \<mapsto> v)\<rparr>"
      by (simp add: PropertyRule_assign_value_Inr)
    from Pair Inr assms show ?thesis
      by (auto simp: assign_value_def c1 split: if_splits)
  qed
qed

subsection \<open>Type compatibility of an assignment\<close>

text \<open>
  Claim C1, as the code has it. For every property rule \<open>p\<close> (whose paired opposite
  is not \<open>p\<close> itself, as in every rule of the catalogue), every entity whose kind is in
  \<open>bindable_to\<close> and every candidate value whose kind is classified as \<open>t\<close>: when \<open>t\<close>
  is castable to at least one entry of \<open>valid_types\<close>, \<open>assign_value\<close> raises nothing
  and the value is stored under the property's name; when \<open>t\<close> is castable to none of
  them, \<open>assign_value\<close> raises the fatal "Incompatible assignment" diagnostic, which
  aborts the statement, and the definition is left as it was.
\<close>

theorem assign_value_compatibility:
  assumes "List.member (bindable_to p) (comp_type c)"
      and "assign_type v = Inr t"
      and "opposite_property p \<noteq> get_name p"
  shows "if list_ex (is_castable t) (valid_types p)
         then fst (assign_value is_castable p c v ctx) = Inr () \<and>
              properties (snd (assign_value is_castable p c v ctx)) (get_name p) = Some v
         else assign_value is_castable p c v ctx =
                (Inl (RDLCompileError (IncompatibleAssignment (get_name p)) ctx), c)"
proof (cases "list_ex (is_castable t) (valid_types p)")
  case True
  with assms(1,2) have "PropertyRule_assign_value is_castable p c v ctx =
      (Inr (), c\<lparr>properties := (properties c)(get_name p \<mapsto> v)\<rparr>)"
    by (rule PropertyRule_assign_value_stores)
  then show ?thesis
    using True assms(3) assign_value_stores by simp
next
  case False
  with assms(1,2) have "PropertyRule_assign_value is_castable p c v ctx =
      (Inl (RDLCompileError (IncompatibleAssignment (get_name p)) ctx), c)"
    by (rule PropertyRule_assign_value_incompatible)
  then show ?thesis
    using False by (simp add: assign_value_error)
qed

text \<open>
  The theorem at \<open>reset = 20\<close> on a field definition: the integer kind is accepted and
  the expression is stored.
\<close>

theorem assign_value_compatibility_witness:
  "List.member (bindable_to Prop_reset) (comp_type field4) \<and>
   assign_type (ExprV (Expr T_int ''20'')) = Inr T_int \<and>
   opposite_property Prop_reset \<noteq> get_name Prop_reset \<and>
   list_ex (is_castable_exact T_int) (valid_types Prop_reset) \<and>
   fst (assign_value is_castable_exact Prop_reset field4 (ExprV (Expr T_int ''20'')) ''top.rdl:8'')
     = Inr () \<and>
   properties
     (snd (assign_value is_castable_exact Prop_reset field4 (ExprV (Expr T_int ''20''))
             ''top.rdl:8''))
     ''reset'' = Some (ExprV (Expr T_int ''20''))"
proof -
  have b: "List.member (bindable_to Prop_reset) (comp_type field4)"
    by (simp add: Prop_reset_def field4_def)
  have a: "assign_type (ExprV (Expr T_int ''20'')) = Inr T_int"
    by simp
  have w: "opposite_property Prop_reset \<noteq> get_name Prop_reset"
    by (simp add: Prop_reset_def)
  have k: "list_ex (is_castable_exact T_int) (valid_types Prop_reset)"
    by (simp add: Prop_reset_def is_castable_exact_def)
  have n: "get_name Prop_reset = ''reset''"
    by (simp add: Prop_reset_def)
  show ?thesis
    using assign_value_compatibility [OF b a w, of is_castable_exact "''top.rdl:8''"] b a w k n
    by simp
qed

text \<open>
  Claim C1 as stated fails: a string assigned to \<open>sync\<close> on a signal, a kind castable
  to none of the rule's kinds, is not recorded as a recoverable error; the call is
  aborted by the fatal diagnostic.
\<close>

theorem incompatible_assignment_is_fatal:
  "List.member (bindable_to Prop_sync) (comp_type async_signal) \<and>
   assign_type (ExprV (Expr T_str ''abc'')) = Inr T_str \<and>
   \<not> list_ex (is_castable_exact T_str) (valid_types Prop_sync) \<and>
   assign_value is_castable_exact Prop_sync async_signal (ExprV (Expr T_str ''abc''))
       ''top.rdl:4'' =
     (Inl (RDLCompileError (IncompatibleAssignment ''sync'') ''top.rdl:4''), async_signal)"
  by (simp add: assign_value_def PropertyRule_assign_value_def fatal_def Prop_sync_def
      async_signal_def is_castable_exact_def)

subsection \<open>The binding check of an assignment\<close>

text \<open>
  Claim C5, as the code has it. For every property rule \<open>p\<close> (whose paired opposite
  is not \<open>p\<close> itself), every entity kind and every candidate value \<open>v\<close> whose
  classified kind is castable to some entry of \<open>valid_types\<close>: the assignment of \<open>v\<close>
  succeeds, storing \<open>v\<close> under the property's name, if and only if the entity's kind is
  a member of \<open>bindable_to\<close>. When the kind is not in \<open>bindable_to\<close>, the assignment of
  any value \<open>w\<close> whatsoever is rejected with the fatal "not valid for" diagnostic and the
  definition is left as it was, so nothing is stored.
\<close>

theorem assign_value_binding:
  assumes "assign_type v = Inr t"
      and "list_ex (is_castable t) (valid_types p)"
      and "opposite_property p \<noteq> get_name p"
  shows "if List.member (bindable_to p) (comp_type c)
         then fst (assign_value is_castable p c v ctx) = Inr () \<and>
              properties (snd (assign_value is_castable p c v ctx)) (get_name p) = Some v
         else assign_value is_castable p c w ctx =
                (Inl (RDLCompileError (NotValidFor (get_name p) (comp_name (comp_type c))) ctx),
                 c)"
proof (cases "List.member (bindable_to p) (comp_type c)")
  case True
  with assms(1,2) have "PropertyRule_assign_value is_castable p c v ctx =
      (Inr (), c\<lparr>properties := (properties c)(get_name p \<mapsto> v)\<rparr>)"
    by (simp add: PropertyRule_assign_value_stores)
  then show ?thesis
    using True assms(3) assign_value_stores by simp
next
  case False
  then have "PropertyRule_assign_value is_castable p c w ctx =
      (Inl (RDLCompileError (NotValidFor (get_name p) (comp_name (comp_type c))) ctx), c)"
    by (rule PropertyRule_assign_value_unbound)
  then show ?thesis
    using False by (simp add: assign_value_error)
qed

text \<open>
  The theorem at \<open>sync\<close>, once on a signal definition, where the value is stored, and
  once on a field definition, where the assignment is rejected.
\<close>

theorem assign_value_binding_witness:
  "assign_type (BoolV True) = Inr T_bool \<and>
   list_ex (is_castable_exact T_bool) (valid_types Prop_sync) \<and>
   opposite_property Prop_sync \<noteq> get_name Prop_sync \<and>
   List.member (bindable_to Prop_sync) (comp_type async_signal) \<and>
   fst (assign_value is_castable_exact Prop_sync async_signal (BoolV True) ''top.rdl:4'')
     = Inr () \<and>
   properties
     (snd (assign_value is_castable_exact Prop_sync async_signal (BoolV True) ''top.rdl:4''))
     ''sync'' = Some (BoolV True) \<and>
   \<not> List.member (bindable_to Prop_sync) (comp_type field4) \<and>
   assign_value is_castable_exact Prop_sync field4 (BoolV True) ''top.rdl:8'' =
     (Inl (RDLCompileError (NotValidFor ''sync'' ''field'') ''top.rdl:8''), field4)"
proof -
  have a: "assign_type (BoolV True) = Inr T_bool"
    by simp
  have k: "list_ex (is_castable_exact T_bool) (valid_types Prop_sync)"
    by (simp add: Prop_sync_def is_castable_exact_def)
  have w: "opposite_property Prop_sync \<noteq> get_name Prop_sync"
    by (simp add: Prop_sync_def)
  have b: "List.member (bindable_to Prop_sync) (comp_type async_signal)"
    by (simp add: Prop_sync_def async_signal_def)
  have nb: "\<not> List.member (bindable_to Prop_sync) (comp_type field4)"
    by (simp add: Prop_sync_def field4_def)
  have n: "get_name Prop_sync = ''sync''"
    by (simp add: Prop_sync_def)
  have f: "comp_name (comp_type field4) = ''field''"
    by (simp add: field4_def)
  show ?thesis
    using
      assign_value_binding [where is_castable = is_castable_exact and p = Prop_sync
        and v = "BoolV True" and t = T_bool and c = async_signal and ctx = "''top.rdl:4''"
        and w = "BoolV True"]
      assign_value_binding [where is_castable = is_castable_exact and p = Prop_sync
        and v = "BoolV True" and t = T_bool and c = field4 and ctx = "''top.rdl:8''"
        and w = "BoolV True"]
      a k w b nb n f
    by simp
qed

text \<open>
  Claim C5 as stated fails in the direction from membership to success: a register is
  in the binding set of \<open>regwidth\<close>, and yet the assignment of a string to it does not
  succeed and stores nothing.
\<close>

theorem bindable_assignment_can_fail:
  "List.member (bindable_to Prop_regwidth) (comp_type reg16) \<and>
   assign_value is_castable_exact Prop_regwidth reg16 (ExprV (Expr T_str ''wide'')) ''top.rdl:6''
     = (Inl (RDLCompileError (IncompatibleAssignment ''regwidth'') ''top.rdl:6''), reg16) \<and>
   properties reg16 ''regwidth'' = None"
  by (simp add: assign_value_def PropertyRule_assign_value_def fatal_def Prop_regwidth_def
      reg16_def is_castable_exact_def)

subsection \<open>Paired booleans\<close>

text \<open>
  Claim C4. For each of the paired-boolean rules (\<open>sync\<close>/\<open>async\<close>, \<open>msb0\<close>/\<open>lsb0\<close>)
  and every component definition: after a successful assignment of one member of the
  pair, that member is present in the definition's property mapping with the assigned
  value and the opposite member is absent, whether or not the opposite was explicitly
  set before. So exactly one of the pair is present, and never both.
\<close>

theorem paired_bool_exclusive:
  assumes "p \<in> {Prop_sync, Prop_async, Prop_msb0, Prop_lsb0}"
      and "assign_value is_castable p c v ctx = (Inr (), c')"
  shows "properties c' (get_name p) = Some v \<and> properties c' (opposite_property p) = None"
proof -
  from assms(1) have "assign_impl p = BoolPair_assign \<and> opposite_property p \<noteq> get_name p"
    by (auto simp: Prop_sync_def Prop_async_def Prop_msb0_def Prop_lsb0_def)
  with assms(2) show ?thesis
    by (simp add: BoolPair_assign_value)
qed

text \<open>
  The theorem at the assignment of \<open>sync\<close> to a signal definition on which \<open>async\<close>
  was set: \<open>sync\<close> is stored and \<open>async\<close> is gone.
\<close>

theorem paired_bool_exclusive_witness:
  "Prop_sync \<in> {Prop_sync, Prop_async, Prop_msb0, Prop_lsb0} \<and>
   properties async_signal ''async'' = Some (BoolV True) \<and>
   fst (assign_value is_castable_exact Prop_sync async_signal (BoolV True) ''top.rdl:4'')
     = Inr () \<and>
   properties
     (snd (assign_value is_castable_exact Prop_sync async_signal (BoolV True) ''top.rdl:4''))
     ''sync'' = Some (BoolV True) \<and>
   properties
     (snd (assign_value is_castable_exact Prop_sync async_signal (BoolV True) ''top.rdl:4''))
     ''async'' = None"
proof -
  let ?r = "assign_value is_castable_exact Prop_sync async_signal (BoolV True) ''top.rdl:4''"
  have m: "Prop_sync \<in> {Prop_sync, Prop_async, Prop_msb0, Prop_lsb0}"
    by simp
  have f: "fst ?r = Inr ()"
    by (simp add: assign_value_def PropertyRule_assign_value_def Prop_sync_def
        async_signal_def is_castable_exact_def)
  then have r: "?r = (Inr (), snd ?r)"
    by (simp add: prod_eq_iff)
  have n: "get_name Prop_sync = ''sync''" "opposite_property Prop_sync = ''async''"
    by (simp_all add: Prop_sync_def)
  have e: "properties async_signal ''async'' = Some (BoolV True)"
    by (simp add: async_signal_def)
  show ?thesis
    using paired_bool_exclusive [OF m r] m f n e by simp
qed

subsection \<open>Alias properties\<close>

text \<open>
  Claim C3 fails on the code. \<open>Prop_incrthreshold.assign_value\<close> is documented as
  "Set both alias and actual value", but its second write goes to \<open>incrthreshold\<close>
  again and not to \<open>threshold\<close>. On a field definition, \<open>threshold = 5\<close> followed by
  \<open>incrthreshold = 7\<close> are two successful assignments, after which \<open>threshold\<close> maps
  to 5 and \<open>incrthreshold\<close> to 7: the two names have diverged.
\<close>

theorem alias_names_diverge:
  "fst (assign_value is_castable_exact Prop_threshold field4 (ExprV (Expr T_int ''5''))
          ''top.rdl:8'') = Inr () \<and>
   fst (assign_value is_castable_exact Prop_incrthreshold
          (snd (assign_value is_castable_exact Prop_threshold field4 (ExprV (Expr T_int ''5''))
                  ''top.rdl:8''))
          (ExprV (Expr T_int ''7'')) ''top.rdl:9'') = Inr () \<and>
   properties
     (snd (assign_value is_castable_exact Prop_incrthreshold
             (snd (assign_value is_castable_exact Prop_threshold field4
                     (ExprV (Expr T_int ''5'')) ''top.rdl:8''))
             (ExprV (Expr T_int ''7'')) ''top.rdl:9''))
     ''threshold'' = Some (ExprV (Expr T_int ''5'')) \<and>
   properties
     (snd (assign_value is_castable_exact Prop_incrthreshold
             (snd (assign_value is_castable_exact Prop_threshold field4
                     (ExprV (Expr T_int ''5'')) ''top.rdl:8''))
             (ExprV (Expr T_int ''7'')) ''top.rdl:9''))
     ''incrthreshold'' = Some (ExprV (Expr T_int ''7''))"
  by (simp add: assign_value_def PropertyRule_assign_value_def Prop_threshold_def
      Prop_incrthreshold_def field4_def is_castable_exact_def)

text \<open>
  What does hold: right after a successful assignment through \<open>threshold\<close> or
  \<open>saturate\<close>, the alias and the canonical name map to the assigned value.
\<close>

lemma threshold_alias_converges:
  assumes "p = Prop_threshold \<or> p = Prop_saturate"
      and "assign_value is_castable p c v ctx = (Inr (), c')"
  shows "properties c' (get_name p) = Some v \<and>
         properties c' (''incr'' @ get_name p) = Some v"
  using assms
  by (auto simp: assign_value_def PropertyRule_assign_value_def Prop_threshold_def
      Prop_saturate_def split: if_splits sum.splits)

subsection \<open>Default resolution of a paired boolean\<close>

text \<open>
  Claim C6. For every paired-boolean rule \<open>p\<close>, default resolution on a node returns
  the logical negation (Python's \<open>not\<close>) of the opposite property's explicitly stored
  value when the opposite is present in the node's definition, the negated boolean
  when that value is a boolean, and otherwise the rule's own static default. It returns
  at once and leaves the node as it was. The result is the same whatever the node's
  \<open>get_property\<close> does: the opposite's default is never consulted, so the two defaults
  cannot call each other.
\<close>

theorem BoolPair_get_default:
  assumes "default_impl p = BoolPair_default"
  shows "get_default node_get_property p n =
           Some (case properties (inst n) (opposite_property p) of
                   Some v \<Rightarrow> Inr (BoolV (\<not> truthy v))
                 | None \<Rightarrow> Inr (default_v p),
                 n) \<and>
         (properties (inst n) (opposite_property p) = Some (BoolV b) \<longrightarrow>
            get_default node_get_property p n = Some (Inr (BoolV (\<not> b)), n))"
  using assms by (simp add: get_default_def split: option.split)

text \<open>
  The theorem at \<open>sync\<close> on a signal with \<open>async\<close> explicitly true, where the default
  is false, and at \<open>lsb0\<close> on an address map without \<open>msb0\<close>, where it is the static
  default; the node's \<open>get_property\<close> is one that never returns.
\<close>

theorem BoolPair_get_default_witness:
  "default_impl Prop_sync = BoolPair_default \<and>
   properties (inst \<lparr>inst = async_signal, get_path = ''top.irq''\<rparr>) (opposite_property Prop_sync)
     = Some (BoolV True) \<and>
   get_default (\<lambda>n prop_name. None) Prop_sync \<lparr>inst = async_signal, get_path = ''top.irq''\<rparr> =
     Some (Inr (BoolV False), \<lparr>inst = async_signal, get_path = ''top.irq''\<rparr>) \<and>
   default_impl Prop_lsb0 = BoolPair_default \<and>
   properties (inst top_node) (opposite_property Prop_lsb0) = None \<and>
   get_default (\<lambda>n prop_name. None) Prop_lsb0 top_node = Some (Inr (BoolV True), top_node)"
proof -
  let ?n = "\<lparr>inst = async_signal, get_path = ''top.irq''\<rparr>"
  have d: "default_impl Prop_sync = BoolPair_default"
    by (simp add: Prop_sync_def)
  have e: "properties (inst ?n) (opposite_property Prop_sync) = Some (BoolV True)"
    by (simp add: Prop_sync_def async_signal_def)
  have d': "default_impl Prop_lsb0 = BoolPair_default"
    by (simp add: Prop_lsb0_def)
  have e': "properties (inst top_node) (opposite_property Prop_lsb0) = None"
    by (simp add: Prop_lsb0_def top_node_def top_addrmap_def)
  have v: "default_v Prop_lsb0 = BoolV True"
    by (simp add: Prop_lsb0_def)
  show ?thesis
    using BoolPair_get_default [OF d, of "\<lambda>n prop_name. None" ?n True]
      BoolPair_get_default [OF d', of "\<lambda>n prop_name. None" top_node True] d e d' e' v
    by simp
qed

subsection \<open>Validation of the reset value\<close>

text \<open>
  Claim C7. For every node of bit width \<open>w\<close> and every integer \<open>v\<close> stored as the
  field's \<open>reset\<close> property, \<open>validate\<close> returns normally, and it records one
  recoverable error, "The reset value exceeds it's width", exactly when \<open>v \<ge> 2 ^ w\<close>;
  otherwise it records nothing. In particular a field of width 4 with \<open>reset = 20\<close>
  yields that error.
\<close>

theorem reset_validate_width:
  "validate Prop_reset n (IntV v) ms =
     (Inr (),
      if v \<ge> 2 ^ width (inst n)
      then ms @ [(ResetExceedsWidth v (inst_name (inst n)) (width (inst n)),
                  inst_err_ctx (inst n))]
      else ms) \<and>
   validate Prop_reset field4_node (IntV 20) [] =
     (Inr (), [(ResetExceedsWidth 20 ''F'' 4, ''top.rdl:7'')])"
  by (simp add: validate_def Prop_reset_def msg_error_def field4_node_def field4_def)

subsection \<open>Default resolution does not write\<close>

lemma get_default_node:
  assumes "get_default (get_property fuel book) p n = Some (r, n')"
  shows "n' = n"
  using assms
proof (induction fuel arbitrary: p)
  case 0
  then show ?case
    by (cases "default_impl p") (auto simp: get_default_def split: option.splits)
next
  case (Suc fuel)
  show ?case
  proof (cases "default_impl p")
    case Regwidth_default
    with Suc.prems
    have g: "get_property (Suc fuel) book n ''regwidth'' = Some (r, n')"
      by (simp add: get_default_def)
    show ?thesis
    proof (cases "properties (inst n) ''regwidth''")
      case (Some v)
      with g show ?thesis by simp
    next
      case None
      show ?thesis
      proof (cases "lookup_property book ''regwidth''")
        case None
        with \<open>properties (inst n) ''regwidth'' = None\<close> g show ?thesis by simp
      next
        case (Some q)
        with \<open>properties (inst n) ''regwidth'' = None\<close> g
        have "get_default (get_property fuel book) q n = Some (r, n')" by simp
        then show ?thesis by (rule Suc.IH)
      qed
    qed
  qed (use Suc.prems in \<open>auto simp: get_default_def split: option.splits\<close>)
qed

lemma get_default_twice_same:
  assumes "get_default_twice (get_property fuel book) p n = Some (r1, r2, n2)"
  shows "r1 = r2 \<and> n2 = n"
proof -
  from assms obtain n1 where
    1: "get_default (get_property fuel book) p n = Some (r1, n1)" and
    2: "get_default (get_property fuel book) p n1 = Some (r2, n2)"
    by (auto simp: get_default_twice_def split: option.splits prod.splits)
  from 1 have "n1 = n" by (rule get_default_node)
  with 1 2 show ?thesis by simp
qed

lemma get_default_regwidth:
  "get_default node_get_property Prop_regwidth n = Some (Inr (IntV 32), n)"
  by (simp add: get_default_def Prop_regwidth_def)

lemma get_property_regwidth_init:
  "get_property (Suc fuel) PropertyRuleBook_init n ''regwidth'' =
     Some (case properties (inst n) ''regwidth'' of
             Some v \<Rightarrow> Inr v
           | None \<Rightarrow> Inr (IntV 32),
           n)"
  by (simp add: lookup_regwidth get_default_regwidth split: option.split)

lemma get_default_returns:
  "\<exists>r. get_default (get_property (Suc fuel) PropertyRuleBook_init) p n = Some (r, n)"
proof (cases "default_impl p")
  case Regwidth_default
  then have "get_default (get_property (Suc fuel) PropertyRuleBook_init) p n =
      get_property (Suc fuel) PropertyRuleBook_init n ''regwidth''"
    by (simp add: get_default_def)
  then show ?thesis
    by (simp only: get_property_regwidth_init) blast
qed (simp_all add: get_default_def split: option.split)

text \<open>
  Claim C8. For every property rule and every node, with the rule book of a compiler
  session default resolution returns, a second call on the node as the first call left
  it returns the same value, and the node after both calls is the node before them, so
  the explicit property mapping is not mutated. With any rule book and any bound on the
  depth of calls, two calls that return give the same value and leave the node as it was.
\<close>

theorem get_default_idempotent:
  "(\<exists>r. get_default_twice (get_property (Suc fuel) PropertyRuleBook_init) p n = Some (r, r, n)) \<and>
   (get_default_twice (get_property fuel' book) p n = Some (r1, r2, n2) \<longrightarrow> r1 = r2 \<and> n2 = n)"
proof
  obtain r where "get_default (get_property (Suc fuel) PropertyRuleBook_init) p n = Some (r, n)"
    using get_default_returns by blast
  then have "get_default_twice (get_property (Suc fuel) PropertyRuleBook_init) p n
      = Some (r, r, n)"
    by (simp add: get_default_twice_def)
  then show "\<exists>r. get_default_twice (get_property (Suc fuel) PropertyRuleBook_init) p n
      = Some (r, r, n)" ..
next
  show "get_default_twice (get_property fuel' book) p n = Some (r1, r2, n2)
      \<longrightarrow> r1 = r2 \<and> n2 = n"
    using get_default_twice_same by blast
qed

text \<open>
  The theorem at \<open>accesswidth\<close> on a register without explicit properties, and at
  \<open>fieldwidth\<close> on a field.
\<close>

theorem get_default_idempotent_witness:
  "get_default_twice (get_property (Suc 0) PropertyRuleBook_init) Prop_accesswidth reg16_node =
     Some (Inr (IntV 32), Inr (IntV 32), reg16_node) \<and>
   (\<exists>r. get_default_twice (get_property (Suc 0) PropertyRuleBook_init) Prop_fieldwidth
          field4_node = Some (r, r, field4_node))"
proof -
  have n: "properties (inst reg16_node) ''regwidth'' = None"
    by (simp add: reg16_node_def reg16_def)
  have d: "default_impl Prop_accesswidth = Regwidth_default"
    by (simp add: Prop_accesswidth_def)
  have g: "get_default (get_property (Suc 0) PropertyRuleBook_init) Prop_accesswidth reg16_node
      = Some (Inr (IntV 32), reg16_node)"
    unfolding get_default_def d
    by (simp only: default_impl.case get_property_regwidth_init n option.case)
  have t: "get_default_twice (get_property (Suc 0) PropertyRuleBook_init) Prop_accesswidth reg16_node =
     Some (Inr (IntV 32), Inr (IntV 32), reg16_node)"
    by (simp add: get_default_twice_def g)
  show ?thesis
    using get_default_idempotent [of 0 Prop_fieldwidth field4_node "Suc 0" PropertyRuleBook_init
        "Inr (IntV 32)" "Inr (IntV 32)" reg16_node] t
    by simp
qed

subsection \<open>The default of accesswidth\<close>

text \<open>
  Claim C9. If \<open>regwidth\<close> is not explicitly assigned on a register's definition (and
  whether or not \<open>accesswidth\<close> is), default resolution of \<open>accesswidth\<close> returns the
  constant 32, the static default of \<open>regwidth\<close>, whatever the declared width of the
  register instance is.
\<close>

theorem accesswidth_default_32:
  assumes "properties (inst n) ''regwidth'' = None"
  shows "get_default (get_property (Suc fuel) PropertyRuleBook_init) Prop_accesswidth n =
           Some (Inr (IntV 32), n)"
proof -
  have "get_default (get_property (Suc fuel) PropertyRuleBook_init) Prop_accesswidth n =
      get_property (Suc fuel) PropertyRuleBook_init n ''regwidth''"
    by (simp add: get_default_def Prop_accesswidth_def)
  with assms show ?thesis
    by (simp only: get_property_regwidth_init option.case)
qed

text \<open>
  The theorem at a register of declared width 16 and at the same register with
  declared width 64.
\<close>

theorem accesswidth_default_32_witness:
  "properties (inst reg16_node) ''regwidth'' = None \<and>
   properties (inst reg16_node) ''accesswidth'' = None \<and>
   get_default (get_property (Suc 2) PropertyRuleBook_init) Prop_accesswidth reg16_node =
     Some (Inr (IntV 32), reg16_node) \<and>
   get_default (get_property (Suc 2) PropertyRuleBook_init) Prop_accesswidth
       (reg16_node\<lparr>inst := reg16\<lparr>width := 64\<rparr>\<rparr>) =
     Some (Inr (IntV 32), reg16_node\<lparr>inst := reg16\<lparr>width := 64\<rparr>\<rparr>)"
proof -
  have n: "properties (inst reg16_node) ''regwidth'' = None"
    "properties (inst reg16_node) ''accesswidth'' = None"
    by (simp_all add: reg16_node_def reg16_def)
  have n': "properties (inst (reg16_node\<lparr>inst := reg16\<lparr>width := 64\<rparr>\<rparr>)) ''regwidth'' = None"
    by (simp add: reg16_def)
  show ?thesis
    using accesswidth_default_32 [OF n(1), of 2] accesswidth_default_32 [OF n', of 2] n
    by simp
qed

text \<open>
  Claim C2 as stated fails: on a register of declared width 16 with neither \<open>regwidth\<close>
  nor \<open>accesswidth\<close> assigned, default resolution of \<open>accesswidth\<close> returns 32 and
  not 16.
\<close>

theorem accesswidth_ignores_declared_width:
  "comp_type (inst reg16_node) = comp_Reg \<and>
   width (inst reg16_node) = 16 \<and>
   properties (inst reg16_node) ''regwidth'' = None \<and>
   properties (inst reg16_node) ''accesswidth'' = None \<and>
   get_default (get_property 3 PropertyRuleBook_init) Prop_accesswidth reg16_node =
     Some (Inr (IntV 32), reg16_node) \<and>
   get_default (get_property 3 PropertyRuleBook_init) Prop_accesswidth reg16_node \<noteq>
     Some (Inr (IntV 16), reg16_node)"
proof -
  have n: "properties (inst reg16_node) ''regwidth'' = None"
    by (simp add: reg16_node_def reg16_def)
  have s: "(3::nat) = Suc 2"
    by simp
  have d: "get_default (get_property 3 PropertyRuleBook_init) Prop_accesswidth reg16_node =
      get_property (Suc 2) PropertyRuleBook_init reg16_node ''regwidth''"
    by (simp only: s) (simp add: get_default_def Prop_accesswidth_def)
  have g: "get_default (get_property 3 PropertyRuleBook_init) Prop_accesswidth reg16_node =
     Some (Inr (IntV 32), reg16_node)"
    unfolding d by (simp only: get_property_regwidth_init n option.case)
  show ?thesis
    by (simp add: g) (simp add: reg16_node_def reg16_def)
qed

text \<open>
  Claim C2, as the code has it. For a register instance whose declared width is 16
  bits, with \<open>regwidth\<close> never explicitly assigned and \<open>accesswidth\<close> never explicitly
  assigned, default resolution of \<open>accesswidth\<close> returns 32: it is the value of the
  register's own \<open>regwidth\<close> property, resolved by the recursive default lookup to the
  static default of \<open>regwidth\<close>, and it is not the declared width.
\<close>

theorem accesswidth_default_declared_16:
  assumes "comp_type (inst n) = comp_Reg"
      and "width (inst n) = 16"
      and "properties (inst n) ''regwidth'' = None"
      and "properties (inst n) ''accesswidth'' = None"
  shows "get_default (get_property (Suc fuel) PropertyRuleBook_init) Prop_accesswidth n =
           Some (Inr (IntV 32), n) \<and>
         get_default (get_property (Suc fuel) PropertyRuleBook_init) Prop_accesswidth n =
           get_property (Suc fuel) PropertyRuleBook_init n ''regwidth'' \<and>
         get_default (get_property (Suc fuel) PropertyRuleBook_init) Prop_accesswidth n \<noteq>
           Some (Inr (IntV (int (width (inst n)))), n)"
proof -
  have d: "get_default (get_property (Suc fuel) PropertyRuleBook_init) Prop_accesswidth n =
      get_property (Suc fuel) PropertyRuleBook_init n ''regwidth''"
    by (simp add: get_default_def Prop_accesswidth_def)
  have g: "get_property (Suc fuel) PropertyRuleBook_init n ''regwidth'' =
      Some (Inr (IntV 32), n)"
    using assms(3) by (simp only: get_property_regwidth_init option.case)
  have w: "IntV 32 \<noteq> IntV (int (width (inst n)))"
    using assms(2) by simp
  from d g w show ?thesis
    by simp
qed

text \<open>The theorem at the register of declared width 16 without explicit properties.\<close>

theorem accesswidth_default_declared_16_witness:
  "comp_type (inst reg16_node) = comp_Reg \<and>
   width (inst reg16_node) = 16 \<and>
   properties (inst reg16_node) ''regwidth'' = None \<and>
   properties (inst reg16_node) ''accesswidth'' = None \<and>
   get_default (get_property (Suc 0) PropertyRuleBook_init) Prop_accesswidth reg16_node =
     Some (Inr (IntV 32), reg16_node) \<and>
   get_default (get_property (Suc 0) PropertyRuleBook_init) Prop_accesswidth reg16_node =
     get_property (Suc 0) PropertyRuleBook_init reg16_node ''regwidth''"
proof -
  have k: "comp_type (inst reg16_node) = comp_Reg"
    by (simp add: reg16_node_def reg16_def)
  have w: "width (inst reg16_node) = 16"
    by (simp add: reg16_node_def reg16_def)
  have r: "properties (inst reg16_node) ''regwidth'' = None"
    by (simp add: reg16_node_def reg16_def)
  have a: "properties (inst reg16_node) ''accesswidth'' = None"
    by (simp add: reg16_node_def reg16_def)
  from accesswidth_default_declared_16 [OF k w r a, of 0] k w r a show ?thesis
    by blast
qed

text \<open>
  With \<open>regwidth\<close> explicitly assigned, default resolution of \<open>accesswidth\<close> returns the
  assigned value, with any rule book: on the register of declared width 16 with
  \<open>regwidth = 8\<close> it returns 8.
\<close>

lemma accesswidth_default_explicit:
  assumes "properties (inst n) ''regwidth'' = Some v"
  shows "get_default (get_property (Suc fuel) book) Prop_accesswidth n = Some (Inr v, n)"
  using assms by (simp add: get_default_def Prop_accesswidth_def)

lemma accesswidth_default_explicit_example:
  "width (inst reg16_explicit_node) = 16 \<and>
   get_default (get_property (Suc 0) PropertyRuleBook_init) Prop_accesswidth reg16_explicit_node
     = Some (Inr (IntV 8), reg16_explicit_node)"
proof -
  have e: "properties (inst reg16_explicit_node) ''regwidth'' = Some (IntV 8)"
    by (simp add: reg16_explicit_node_def)
  have w: "width (inst reg16_explicit_node) = 16"
    by (simp add: reg16_explicit_node_def reg16_def)
  from accesswidth_default_explicit [OF e, of 0 PropertyRuleBook_init] w show ?thesis
    by simp
qed

subsection \<open>The engine fault of reset validation\<close>

text \<open>
  Claim C10. \<open>validate\<close> of the \<open>reset\<close> property raises \<open>RuntimeError\<close>, recording
  nothing, exactly when the stored value is neither an integer nor a field node; for an
  integer and for a field node it returns normally and at most appends recoverable
  errors to the recorded messages.
\<close>

theorem reset_validate_fault:
  "(validate Prop_reset n v ms = (Inl RuntimeError, ms)) =
     ((\<forall>i. v \<noteq> IntV i) \<and> (\<forall>r. v \<noteq> NodeV comp_Field r)) \<and>
   (\<exists>ds. validate Prop_reset n (IntV i) ms = (Inr (), ms @ ds)) \<and>
   (\<exists>ds. validate Prop_reset n (NodeV comp_Field r) ms = (Inr (), ms @ ds))"
proof -
  have 1: "(validate Prop_reset n v ms = (Inl RuntimeError, ms)) =
     ((\<forall>i. v \<noteq> IntV i) \<and> (\<forall>r. v \<noteq> NodeV comp_Field r))"
    by (cases v) (auto simp: validate_def Prop_reset_def Let_def)
  have 2: "\<exists>ds. validate Prop_reset n (IntV i) ms = (Inr (), ms @ ds)"
    by (simp add: validate_def Prop_reset_def msg_error_def)
  have 3: "\<exists>ds. validate Prop_reset n (NodeV comp_Field r) ms = (Inr (), ms @ ds)"
    by (simp add: validate_def Prop_reset_def msg_error_def Let_def)
  from 1 2 3 show ?thesis by blast
qed

text \<open>
  The theorem at the boolean \<open>True\<close> and at \<open>None\<close>, which raise, and at a reference to
  a field of another width, which does not.
\<close>

theorem reset_validate_fault_witness:
  "validate Prop_reset field4_node (BoolV True) [] = (Inl RuntimeError, []) \<and>
   validate Prop_reset field4_node NoneV [] = (Inl RuntimeError, []) \<and>
   (\<exists>ds. validate Prop_reset field4_node
           (NodeV comp_Field \<lparr>ref_path = ''top.R.F'', ref_width = 8, ref_inst_name = ''F''\<rparr>) []
         = (Inr (), [] @ ds))"
  using reset_validate_fault [of field4_node "BoolV True" "[]"]
    reset_validate_fault [of field4_node NoneV "[]" 0
      "\<lparr>ref_path = ''top.R.F'', ref_width = 8, ref_inst_name = ''F''\<rparr>"]
  by simp

end
